theory Spec2Isabelle
  imports Main
begin

section \<open>Python values and exceptions\<close>

text \<open>
  The program is \<^verbatim>\<open>supervisor_and_worker.py\<close>. Its setters accept any Python value and
  test its type at run time, so arguments and validated attributes are values of
  \<open>pyval\<close>: \<^verbatim>\<open>None\<close>, a \<^verbatim>\<open>bool\<close>, an \<^verbatim>\<open>int\<close> (unbounded), a \<^verbatim>\<open>str\<close> or a member
  of the enum \<^verbatim>\<open>Shift\<close>. Floats are left out; the code treats them like \<open>PBool\<close>
  (\<^verbatim>\<open>type(v) is int\<close> is false for both, and both compare with an \<^verbatim>\<open>int\<close>).
\<close>

datatype Shift = DAY | SWING | NIGHT

datatype pyval = PNone | PBool bool | PInt int | PStr string | PShift Shift

datatype exn = TypeError | ValueError | IsFull

text \<open>\<^verbatim>\<open>type(v) is int\<close>, \<^verbatim>\<open>type(v) is str\<close>, \<^verbatim>\<open>type(v) is Shift\<close>: exact type tests, so
  \<^verbatim>\<open>True\<close> is not an \<^verbatim>\<open>int\<close> here.\<close>

fun type_is_int :: "pyval \<Rightarrow> bool" where
  "type_is_int (PInt n) = True"
| "type_is_int v = False"

fun type_is_str :: "pyval \<Rightarrow> bool" where
  "type_is_str (PStr s) = True"
| "type_is_str v = False"

fun type_is_Shift :: "pyval \<Rightarrow> bool" where
  "type_is_Shift (PShift m) = True"
| "type_is_Shift v = False"

text \<open>The number a value stands for in a comparison or a sum with an \<^verbatim>\<open>int\<close>:
  \<^verbatim>\<open>bool\<close> is a subclass of \<^verbatim>\<open>int\<close>; for every other type Python raises \<^verbatim>\<open>TypeError\<close>.\<close>

fun num_of :: "pyval \<Rightarrow> int option" where
  "num_of (PInt n) = Some n"
| "num_of (PBool b) = Some (if b then 1 else 0)"
| "num_of v = None"

text \<open>\<^verbatim>\<open>v < k\<close>, \<^verbatim>\<open>v <= k\<close>, \<^verbatim>\<open>k <= v\<close>, \<^verbatim>\<open>v > k\<close> and \<^verbatim>\<open>v + k\<close> for an \<^verbatim>\<open>int\<close> constant \<open>k\<close>.\<close>

definition py_lt :: "pyval \<Rightarrow> int \<Rightarrow> exn + bool" where
  "py_lt v k = (case num_of v of Some n \<Rightarrow> Inr (n < k) | None \<Rightarrow> Inl TypeError)"

definition py_le :: "pyval \<Rightarrow> int \<Rightarrow> exn + bool" where
  "py_le v k = (case num_of v of Some n \<Rightarrow> Inr (n \<le> k) | None \<Rightarrow> Inl TypeError)"

definition py_ge :: "pyval \<Rightarrow> int \<Rightarrow> exn + bool" where
  "py_ge v k = (case num_of v of Some n \<Rightarrow> Inr (k \<le> n) | None \<Rightarrow> Inl TypeError)"

definition py_gt :: "pyval \<Rightarrow> int \<Rightarrow> exn + bool" where
  "py_gt v k = (case num_of v of Some n \<Rightarrow> Inr (k < n) | None \<Rightarrow> Inl TypeError)"

definition py_add :: "pyval \<Rightarrow> int \<Rightarrow> exn + pyval" where
  "py_add v k = (case num_of v of Some n \<Rightarrow> Inr (PInt (n + k)) | None \<Rightarrow> Inl TypeError)"

text \<open>The chained comparison \<^verbatim>\<open>lo <= v <= hi\<close> is \<^verbatim>\<open>lo <= v and v <= hi\<close>.\<close>

definition py_between :: "int \<Rightarrow> pyval \<Rightarrow> int \<Rightarrow> exn + bool" where
  "py_between lo v hi =
     (case py_ge v lo of
        Inl e \<Rightarrow> Inl e
      | Inr b \<Rightarrow> if b then py_le v hi else Inr False)"

text \<open>\<^verbatim>\<open>v * u\<close> of two values.\<close>

definition py_mul :: "pyval \<Rightarrow> pyval \<Rightarrow> exn + pyval" where
  "py_mul v u =
     (case num_of v of
        None \<Rightarrow> Inl TypeError
      | Some a \<Rightarrow> (case num_of u of None \<Rightarrow> Inl TypeError | Some b \<Rightarrow> Inr (PInt (a * b))))"

text \<open>\<^verbatim>\<open>str.isnumeric()\<close>: every character is numeric and there is at least one. A \<open>char\<close>
  is a code point below 256; the numeric ones there are the ten digits and the superscripts
  and fractions U+00B2, U+00B3, U+00B9, U+00BC, U+00BD, U+00BE.\<close>

definition numeric_char :: "char \<Rightarrow> bool" where
  "numeric_char c =
     ((48 \<le> (of_char c :: nat) \<and> (of_char c :: nat) \<le> 57)
      \<or> (of_char c :: nat) \<in> {178, 179, 185, 188, 189, 190})"

definition isnumeric :: "string \<Rightarrow> bool" where
  "isnumeric s = (s \<noteq> [] \<and> list_all numeric_char s)"

text \<open>\<^verbatim>\<open>v in Shift\<close> is \<^verbatim>\<open>EnumMeta.__contains__\<close> of the interpreter's \<^verbatim>\<open>enum\<close> module,
  which is not part of the repository and has changed twice, so the interpreter is a
  parameter of the model:
  \<^item> \<open>Py37\<close>, Python up to 3.7 (the interpreter of 2019, when the file was written): the
    answer is whether the value is a member; a value that is no \<^verbatim>\<open>Enum\<close> gives \<^verbatim>\<open>False\<close>
    (and a deprecation warning);
  \<^item> \<open>Py38\<close>, Python 3.8 to 3.11: a value that is no \<^verbatim>\<open>Enum\<close> raises \<^verbatim>\<open>TypeError\<close>;
  \<^item> \<open>Py312\<close>, Python 3.12 and later: nothing is raised, and the answer is \<^verbatim>\<open>True\<close> for a
    member and also for the value of a member, that is for 1, 2, 3 and for \<^verbatim>\<open>True\<close>, which
    equals 1.\<close>

datatype python = Py37 | Py38 | Py312

text \<open>A value equal to the value of a member of \<^verbatim>\<open>Shift\<close> (\<^verbatim>\<open>DAY = 1\<close>, \<^verbatim>\<open>SWING = 2\<close>,
  \<^verbatim>\<open>NIGHT = 3\<close>).\<close>

definition member_value :: "pyval \<Rightarrow> bool" where
  "member_value v = (case num_of v of Some n \<Rightarrow> 1 \<le> n \<and> n \<le> 3 | None \<Rightarrow> False)"

fun in_Shift :: "python \<Rightarrow> pyval \<Rightarrow> exn + bool" where
  "in_Shift Py37 v = Inr (type_is_Shift v)"
| "in_Shift Py38 v = (if type_is_Shift v then Inr True else Inl TypeError)"
| "in_Shift Py312 v = Inr (type_is_Shift v \<or> member_value v)"

text \<open>The call \<^verbatim>\<open>Shift(v)\<close>: the member with that value, \<^verbatim>\<open>ValueError\<close> if there is none.\<close>

definition Shift_call :: "pyval \<Rightarrow> exn + pyval" where
  "Shift_call v =
     (if v = PInt 1 then Inr (PShift DAY)
      else if v = PInt 2 then Inr (PShift SWING)
      else if v = PInt 3 then Inr (PShift NIGHT)
      else (case v of PShift m \<Rightarrow> Inr (PShift m) | _ \<Rightarrow> Inl ValueError))"

text \<open>A method that assigns to \<^verbatim>\<open>self\<close> returns the exception it raised, if any, and the
  object as the raise or the return left it. \<open>seq\<close> is the sequence of two statements.\<close>

definition seq :: "exn option \<times> 's \<Rightarrow> ('s \<Rightarrow> exn option \<times> 's) \<Rightarrow> exn option \<times> 's" where
  "seq r f = (case r of (None, s) \<Rightarrow> f s | (Some e, s) \<Rightarrow> (Some e, s))"

text \<open>A constructor call gives the object, or the exception \<^verbatim>\<open>__init__\<close> raised.\<close>

definition construct :: "exn option \<times> 's \<Rightarrow> exn + 's" where
  "construct r = (case r of (None, s) \<Rightarrow> Inr s | (Some e, s) \<Rightarrow> Inl e)"

section \<open>Base class \<^verbatim>\<open>Employee\<close>\<close>

definition DEFAULT_NAME :: string where "DEFAULT_NAME = ''unidentified''"
definition DEFAULT_NUM :: int where "DEFAULT_NUM = 1234"
definition BENEFIT_ID :: int where "BENEFIT_ID = 5000"
definition MIN_EMPLY_NUM :: int where "MIN_EMPLY_NUM = 1000"
definition MAX_EMPLY_NUM :: int where "MAX_EMPLY_NUM = 99999"

record Employee =
  name :: pyval
  number :: pyval
  benefits :: bool

text \<open>\<^verbatim>\<open>type(the_name) is str and the_name.isnumeric() is False\<close>\<close>

definition validate_name :: "pyval \<Rightarrow> exn + bool" where
  "validate_name the_name =
     (case the_name of PStr s \<Rightarrow> Inr (isnumeric s = False) | _ \<Rightarrow> Inr False)"

text \<open>\<^verbatim>\<open>type(employee_id) is int and MIN_EMPLY_NUM <= employee_id <= MAX_EMPLY_NUM\<close>\<close>

definition validate_id :: "pyval \<Rightarrow> exn + bool" where
  "validate_id employee_id =
     (if type_is_int employee_id then py_between MIN_EMPLY_NUM employee_id MAX_EMPLY_NUM
      else Inr False)"

text \<open>\<^verbatim>\<open>return number < Employee.BENEFIT_ID\<close>\<close>

definition determine_benefits :: "pyval \<Rightarrow> exn + bool" where
  "determine_benefits num = py_lt num BENEFIT_ID"

definition set_employee_name :: "pyval \<Rightarrow> 'a Employee_scheme \<Rightarrow> exn option \<times> 'a Employee_scheme" where
  "set_employee_name nm self =
     (case validate_name nm of
        Inl e \<Rightarrow> (Some e, self)
      | Inr ok \<Rightarrow> (None, self\<lparr>name := (if ok then nm else PStr DEFAULT_NAME)\<rparr>))"

text \<open>The setter of \<^verbatim>\<open>employee_num\<close> stores the number first and then calls
  \<^verbatim>\<open>determine_benefits(number)\<close> on its argument.\<close>

definition set_employee_num :: "pyval \<Rightarrow> 'a Employee_scheme \<Rightarrow> exn option \<times> 'a Employee_scheme" where
  "set_employee_num num self =
     (case validate_id num of
        Inl e \<Rightarrow> (Some e, self)
      | Inr ok \<Rightarrow>
          (let self1 = self\<lparr>number := (if ok then num else PInt DEFAULT_NUM)\<rparr> in
           case determine_benefits num of
             Inl e \<Rightarrow> (Some e, self1)
           | Inr b \<Rightarrow> (None, self1\<lparr>benefits := (if b then True else False)\<rparr>)))"

definition Employee_init :: "pyval \<Rightarrow> pyval \<Rightarrow> 'a Employee_scheme \<Rightarrow> exn option \<times> 'a Employee_scheme" where
  "Employee_init nm num self = seq (set_employee_name nm self) (set_employee_num num)"

text \<open>An object before \<^verbatim>\<open>__init__\<close> has run has no attribute yet; the placeholders stand
  for that, and every one of them is assigned before \<^verbatim>\<open>__init__\<close> returns.\<close>

definition Employee_new :: Employee where
  "Employee_new = \<lparr>name = PNone, number = PNone, benefits = False\<rparr>"

definition Employee_make :: "pyval \<Rightarrow> pyval \<Rightarrow> exn + Employee" where
  "Employee_make nm num = construct (Employee_init nm num Employee_new)"

section \<open>Derived class \<^verbatim>\<open>ProductionWorker\<close>\<close>

definition DEFAULT_SHIFT :: Shift where "DEFAULT_SHIFT = DAY"
definition DEFAULT_HOURLY_RAY_RATE :: int where "DEFAULT_HOURLY_RAY_RATE = 1"
definition DEFAULT_HOURS_WORKED :: int where "DEFAULT_HOURS_WORKED = 0"
definition MIN_HOURLY_PAY_RATE :: int where "MIN_HOURLY_PAY_RATE = 0"
definition MAX_HOURLY_PAY_RATE :: int where "MAX_HOURLY_PAY_RATE = 20"
definition MIN_HOURS_WORKED :: int where "MIN_HOURS_WORKED = 0"
definition MAX_HOURS_WORKED :: int where "MAX_HOURS_WORKED = 40"

record ProductionWorker = Employee +
  shift :: pyval
  rate :: pyval
  hour :: pyval

definition validate_rate :: "pyval \<Rightarrow> exn + bool" where
  "validate_rate r =
     (if type_is_int r then py_between MIN_HOURLY_PAY_RATE r MAX_HOURLY_PAY_RATE
      else Inr False)"

definition validate_hour :: "pyval \<Rightarrow> exn + bool" where
  "validate_hour h =
     (if type_is_int h then py_between MIN_HOURS_WORKED h MAX_HOURS_WORKED
      else Inr False)"

text \<open>\<^verbatim>\<open>if shift in Shift: ... elif type(shift) is int and (1 <= shift <= 3): ... else: ...\<close>\<close>

definition set_employee_shift ::
  "python \<Rightarrow> pyval \<Rightarrow> ProductionWorker \<Rightarrow> exn option \<times> ProductionWorker" where
  "set_employee_shift py sh self =
     (case in_Shift py sh of
        Inl e \<Rightarrow> (Some e, self)
      | Inr True \<Rightarrow> (None, self\<lparr>shift := sh\<rparr>)
      | Inr False \<Rightarrow>
          (case (if type_is_int sh then py_between 1 sh 3 else Inr False) of
             Inl e \<Rightarrow> (Some e, self)
           | Inr True \<Rightarrow>
               (case Shift_call sh of
                  Inl e \<Rightarrow> (Some e, self)
                | Inr m \<Rightarrow> (None, self\<lparr>shift := m\<rparr>))
           | Inr False \<Rightarrow> (None, self\<lparr>shift := PShift DEFAULT_SHIFT\<rparr>)))"

definition set_hourly_pay_rate :: "pyval \<Rightarrow> ProductionWorker \<Rightarrow> exn option \<times> ProductionWorker" where
  "set_hourly_pay_rate r self =
     (case validate_rate r of
        Inl e \<Rightarrow> (Some e, self)
      | Inr ok \<Rightarrow> (None, self\<lparr>rate := (if ok then r else PInt DEFAULT_HOURLY_RAY_RATE)\<rparr>))"

definition set_hours_worked :: "pyval \<Rightarrow> ProductionWorker \<Rightarrow> exn option \<times> ProductionWorker" where
  "set_hours_worked h self =
     (case validate_hour h of
        Inl e \<Rightarrow> (Some e, self)
      | Inr ok \<Rightarrow> (None, self\<lparr>hour := (if ok then h else PInt DEFAULT_HOURS_WORKED)\<rparr>))"

text \<open>\<^verbatim>\<open>gross_pay(self, rate, hour)\<close> reads nothing of \<^verbatim>\<open>self\<close>: both validators are class
  methods. \<^verbatim>\<open>and\<close> evaluates its right operand only when the left one is true.\<close>

definition gross_pay :: "pyval \<Rightarrow> pyval \<Rightarrow> exn + pyval" where
  "gross_pay r h =
     (case validate_rate r of
        Inl e \<Rightarrow> Inl e
      | Inr False \<Rightarrow> Inr (PInt 0)
      | Inr True \<Rightarrow>
          (case validate_hour h of
             Inl e \<Rightarrow> Inl e
           | Inr False \<Rightarrow> Inr (PInt 0)
           | Inr True \<Rightarrow> py_mul r h))"

definition ProductionWorker_init ::
  "python \<Rightarrow> pyval \<Rightarrow> pyval \<Rightarrow> pyval \<Rightarrow> pyval \<Rightarrow> pyval \<Rightarrow> ProductionWorker
     \<Rightarrow> exn option \<times> ProductionWorker" where
  "ProductionWorker_init py nm num sh r h self =
     seq (seq (seq (set_employee_shift py sh self) (set_hourly_pay_rate r)) (set_hours_worked h))
         (Employee_init nm num)"

definition ProductionWorker_new :: ProductionWorker where
  "ProductionWorker_new =
     \<lparr>name = PNone, number = PNone, benefits = False, shift = PNone, rate = PNone, hour = PNone\<rparr>"

definition ProductionWorker_make ::
  "python \<Rightarrow> pyval \<Rightarrow> pyval \<Rightarrow> pyval \<Rightarrow> pyval \<Rightarrow> pyval \<Rightarrow> exn + ProductionWorker" where
  "ProductionWorker_make py nm num sh r h =
     construct (ProductionWorker_init py nm num sh r h ProductionWorker_new)"

text \<open>The assignments a caller can make to a worker after construction. A caller may catch
  what a setter raises and go on, so a sequence of calls continues from the object as each
  call left it.\<close>

datatype worker_op =
    Set_employee_shift pyval
  | Set_hourly_pay_rate pyval
  | Set_hours_worked pyval
  | Set_employee_name pyval
  | Set_employee_num pyval

fun worker_step ::
  "python \<Rightarrow> worker_op \<Rightarrow> ProductionWorker \<Rightarrow> exn option \<times> ProductionWorker" where
  "worker_step py (Set_employee_shift v) w = set_employee_shift py v w"
| "worker_step py (Set_hourly_pay_rate v) w = set_hourly_pay_rate v w"
| "worker_step py (Set_hours_worked v) w = set_hours_worked v w"
| "worker_step py (Set_employee_name v) w = set_employee_name v w"
| "worker_step py (Set_employee_num v) w = set_employee_num v w"

fun worker_run :: "python \<Rightarrow> worker_op list \<Rightarrow> ProductionWorker \<Rightarrow> ProductionWorker" where
  "worker_run py [] w = w"
| "worker_run py (c # cs) w = worker_run py cs (snd (worker_step py c w))"

section \<open>Derived class \<^verbatim>\<open>ShiftSupervisor\<close>\<close>

definition DEFAULT_SALARY :: int where "DEFAULT_SALARY = 50000"
definition MIN_SALARY :: int where "MIN_SALARY = 50000"
definition MAX_SALARY :: int where "MAX_SALARY = 200000"
definition DEFAULT_SHIFT_sup :: Shift where "DEFAULT_SHIFT_sup = DAY"
definition DEFAULT_CAPACITY :: int where "DEFAULT_CAPACITY = 10"
definition DEFAULT_NUM_OF_WORKERS :: int where "DEFAULT_NUM_OF_WORKERS = 0"
definition BONUS_ADD_TO_SALARY :: int where "BONUS_ADD_TO_SALARY = 10000"
definition WORKERS_REQUIRED :: int where "WORKERS_REQUIRED = 4"

text \<open>\<^verbatim>\<open>emp_array\<close> is a numpy array of objects, \<^verbatim>\<open>None\<close> where no worker is held: a list
  of optional workers, whose length is the array's \<^verbatim>\<open>size\<close>. The count \<^verbatim>\<open>num_worker\<close> is
  compared with 0 and with the size and incremented by the code; it is an \<^verbatim>\<open>int\<close>.\<close>

record ShiftSupervisor = Employee +
  salary :: pyval
  sup_shift :: pyval
  emp_array :: "ProductionWorker option list"
  num_worker :: int

text \<open>\<^verbatim>\<open>type(salary) is int and MIN_SALARY <= salary <= MAX_SALARY\<close>\<close>

definition valid_salary :: "pyval \<Rightarrow> exn + bool" where
  "valid_salary sal =
     (if type_is_int sal then py_between MIN_SALARY sal MAX_SALARY else Inr False)"

text \<open>\<^verbatim>\<open>if type(emp_array) is int and emp_array > 0: return emp_array\<close>, else the default.\<close>

definition valid_arr_capacity :: "pyval \<Rightarrow> exn + pyval" where
  "valid_arr_capacity cap =
     (case (if type_is_int cap then py_gt cap 0 else Inr False) of
        Inl e \<Rightarrow> Inl e
      | Inr True \<Rightarrow> Inr cap
      | Inr False \<Rightarrow> Inr (PInt DEFAULT_CAPACITY))"

definition set_annual_salary :: "pyval \<Rightarrow> ShiftSupervisor \<Rightarrow> exn option \<times> ShiftSupervisor" where
  "set_annual_salary sal self =
     (case valid_salary sal of
        Inl e \<Rightarrow> (Some e, self)
      | Inr ok \<Rightarrow> (None, self\<lparr>salary := (if ok then sal else PInt DEFAULT_SALARY)\<rparr>))"

text \<open>\<^verbatim>\<open>if type(shift) is Shift: ... elif type(shift) is int and (1 <= shift <= 3): ... else: ...\<close>\<close>

definition set_supervisor_shift :: "pyval \<Rightarrow> ShiftSupervisor \<Rightarrow> exn option \<times> ShiftSupervisor" where
  "set_supervisor_shift sh self =
     (if type_is_Shift sh then (None, self\<lparr>sup_shift := sh\<rparr>)
      else
        (case (if type_is_int sh then py_between 1 sh 3 else Inr False) of
           Inl e \<Rightarrow> (Some e, self)
         | Inr True \<Rightarrow>
             (case Shift_call sh of
                Inl e \<Rightarrow> (Some e, self)
              | Inr m \<Rightarrow> (None, self\<lparr>sup_shift := m\<rparr>))
         | Inr False \<Rightarrow> (None, self\<lparr>sup_shift := PShift DEFAULT_SHIFT_sup\<rparr>)))"

definition set_number_of_workers :: "int \<Rightarrow> ShiftSupervisor \<Rightarrow> exn option \<times> ShiftSupervisor" where
  "set_number_of_workers n self =
     (if n \<le> 0 then (None, self\<lparr>num_worker := DEFAULT_NUM_OF_WORKERS\<rparr>)
      else (None, self\<lparr>num_worker := n\<rparr>))"

text \<open>\<^verbatim>\<open>numpy.empty(shape=(1, c), dtype=ProductionWorker)\<close>: \<open>c\<close> slots holding \<^verbatim>\<open>None\<close>.\<close>

definition numpy_empty :: "pyval \<Rightarrow> exn + ProductionWorker option list" where
  "numpy_empty c =
     (case c of PInt n \<Rightarrow> if 0 \<le> n then Inr (replicate (nat n) None) else Inl ValueError
      | _ \<Rightarrow> Inl TypeError)"

text \<open>\<^verbatim>\<open>numpy.append(a, w)\<close> flattens the array and adds \<open>w\<close> at the end;
  \<^verbatim>\<open>numpy.delete(a, 0)\<close> removes index 0 of the flat array.\<close>

definition numpy_append :: "ProductionWorker option list \<Rightarrow> ProductionWorker \<Rightarrow> ProductionWorker option list" where
  "numpy_append a w = a @ [Some w]"

definition numpy_delete0 :: "ProductionWorker option list \<Rightarrow> ProductionWorker option list" where
  "numpy_delete0 a = drop 1 a"

text \<open>\<^verbatim>\<open>worker_obj.employee_shift is self.supervisor_shift\<close>: enum members are singletons,
  identity is equality of members.\<close>

definition shift_valid :: "ShiftSupervisor \<Rightarrow> ProductionWorker \<Rightarrow> bool" where
  "shift_valid self worker_obj = (shift worker_obj = sup_shift self)"

text \<open>In \<^verbatim>\<open>add_to_array\<close> the test of the size stands in a \<^verbatim>\<open>try\<close> whose handler catches
  \<^verbatim>\<open>ValueError\<close> only; \<^verbatim>\<open>IsFull\<close> derives from \<^verbatim>\<open>Error(Exception)\<close> and leaves the method.\<close>

definition add_to_array :: "ProductionWorker \<Rightarrow> ShiftSupervisor \<Rightarrow> exn option \<times> ShiftSupervisor" where
  "add_to_array production_worker self =
     (if \<not> shift_valid self production_worker then (None, self)
      else
        (case (if int (length (emp_array self)) \<le> num_worker self then Some IsFull else None) of
           Some ValueError \<Rightarrow> (None, self)
         | Some e \<Rightarrow> (Some e, self)
         | None \<Rightarrow>
             (let self1 = self\<lparr>emp_array := numpy_append (emp_array self) production_worker\<rparr>;
                  self2 = self1\<lparr>emp_array := numpy_delete0 (emp_array self1)\<rparr>
              in set_number_of_workers (num_worker self2 + 1) self2)))"

text \<open>\<^verbatim>\<open>bonus\<close> assigns \<^verbatim>\<open>self.annual_salary + BONUS_ADD_TO_SALARY\<close> through the setter of
  \<^verbatim>\<open>annual_salary\<close>. It returns a \<^verbatim>\<open>bool\<close>, so its result is the value or the exception.\<close>

definition bonus :: "ShiftSupervisor \<Rightarrow> (exn + bool) \<times> ShiftSupervisor" where
  "bonus self =
     (if num_worker self > WORKERS_REQUIRED then
        (case py_add (salary self) BONUS_ADD_TO_SALARY of
           Inl e \<Rightarrow> (Inl e, self)
         | Inr v \<Rightarrow>
             (case set_annual_salary v self of
                (Some e, self1) \<Rightarrow> (Inl e, self1)
              | (None, self1) \<Rightarrow> (Inr True, self1)))
      else (Inr False, self))"

definition set_emp_array_new :: "pyval \<Rightarrow> ShiftSupervisor \<Rightarrow> exn option \<times> ShiftSupervisor" where
  "set_emp_array_new cap self =
     (case valid_arr_capacity cap of
        Inl e \<Rightarrow> (Some e, self)
      | Inr c \<Rightarrow>
          (case numpy_empty c of
             Inl e \<Rightarrow> (Some e, self)
           | Inr a \<Rightarrow> (None, self\<lparr>emp_array := a\<rparr>)))"

definition ShiftSupervisor_init ::
  "pyval \<Rightarrow> pyval \<Rightarrow> pyval \<Rightarrow> pyval \<Rightarrow> pyval \<Rightarrow> int \<Rightarrow> ShiftSupervisor \<Rightarrow> exn option \<times> ShiftSupervisor" where
  "ShiftSupervisor_init nm num sal sh cap n self =
     seq (seq (seq (seq (set_annual_salary sal self) (set_supervisor_shift sh))
                   (set_emp_array_new cap))
              (set_number_of_workers n))
         (Employee_init nm num)"

definition ShiftSupervisor_new :: ShiftSupervisor where
  "ShiftSupervisor_new =
     \<lparr>name = PNone, number = PNone, benefits = False,
      salary = PNone, sup_shift = PNone, emp_array = [], num_worker = 0\<rparr>"

definition ShiftSupervisor_make ::
  "pyval \<Rightarrow> pyval \<Rightarrow> pyval \<Rightarrow> pyval \<Rightarrow> pyval \<Rightarrow> int \<Rightarrow> exn + ShiftSupervisor" where
  "ShiftSupervisor_make nm num sal sh cap n =
     construct (ShiftSupervisor_init nm num sal sh cap n ShiftSupervisor_new)"

text \<open>The workers a roster holds: its entries that are not \<^verbatim>\<open>None\<close>, as \<^verbatim>\<open>__str__\<close> lists them.\<close>

definition held :: "ShiftSupervisor \<Rightarrow> ProductionWorker list" where
  "held self = map the (filter (\<lambda>i. i \<noteq> None) (emp_array self))"

text \<open>What a caller can do with a supervisor after construction.\<close>

datatype sup_op =
    Add_to_array ProductionWorker
  | Bonus
  | Set_annual_salary pyval
  | Set_supervisor_shift pyval
  | Set_number_of_workers int
  | Set_sup_name pyval
  | Set_sup_num pyval

fun sup_step :: "sup_op \<Rightarrow> ShiftSupervisor \<Rightarrow> ShiftSupervisor" where
  "sup_step (Add_to_array w) s = snd (add_to_array w s)"
| "sup_step Bonus s = snd (bonus s)"
| "sup_step (Set_annual_salary v) s = snd (set_annual_salary v s)"
| "sup_step (Set_supervisor_shift v) s = snd (set_supervisor_shift v s)"
| "sup_step (Set_number_of_workers n) s = snd (set_number_of_workers n s)"
| "sup_step (Set_sup_name v) s = snd (set_employee_name v s)"
| "sup_step (Set_sup_num v) s = snd (set_employee_num v s)"

fun sup_run :: "sup_op list \<Rightarrow> ShiftSupervisor \<Rightarrow> ShiftSupervisor" where
  "sup_run [] s = s"
| "sup_run (c # cs) s = sup_run cs (sup_step c s)"

text \<open>The operations that leave the count to \<^verbatim>\<open>add_to_array\<close>: all but a direct assignment
  of \<^verbatim>\<open>number_of_workers\<close>.\<close>

fun keeps_count :: "sup_op \<Rightarrow> bool" where
  "keeps_count (Set_number_of_workers n) = False"
| "keeps_count c = True"

text \<open>"The value is an integer in \<open>[lo, hi]\<close>", as the data model words the ranges.\<close>

definition int_in :: "int \<Rightarrow> int \<Rightarrow> pyval \<Rightarrow> bool" where
  "int_in lo hi v = (case v of PInt n \<Rightarrow> lo \<le> n \<and> n \<le> hi | _ \<Rightarrow> False)"

text \<open>The stored pay fields of a worker are valid: the rate an integer in \<open>[0, 20]\<close>, the
  hours an integer in \<open>[0, 40]\<close>.\<close>

definition worker_pay_ok :: "ProductionWorker \<Rightarrow> bool" where
  "worker_pay_ok w = (int_in 0 20 (rate w) \<and> int_in 0 40 (hour w))"

text \<open>The shape of a roster of capacity \<open>c\<close> that started with the count \<open>n0\<close> and took the
  workers \<open>ws\<close> since: empty slots in front, the workers behind them in the order of their
  arrival, and the count \<open>n0\<close> plus their number.\<close>

definition packed :: "nat \<Rightarrow> int \<Rightarrow> ProductionWorker list \<Rightarrow> ShiftSupervisor \<Rightarrow> bool" where
  "packed c n0 ws s =
     (emp_array s = replicate (c - length ws) None @ map Some ws
      \<and> num_worker s = n0 + int (length ws) \<and> length ws \<le> c \<and> 0 \<le> n0)"

text \<open>Objects of \<^verbatim>\<open>main()\<close>: four of its workers and its first supervisor, as their
  constructors leave them.\<close>

definition worker1 :: ProductionWorker where
  "worker1 = \<lparr>name = PStr ''Marco Joseph'', number = PInt 1340, benefits = True,
              shift = PShift NIGHT, rate = PInt 20, hour = PInt 10\<rparr>"

definition worker2 :: ProductionWorker where
  "worker2 = \<lparr>name = PStr ''Roselle Lambert'', number = PInt 6456, benefits = False,
              shift = PShift NIGHT, rate = PInt 13, hour = PInt 35\<rparr>"

definition worker3 :: ProductionWorker where
  "worker3 = \<lparr>name = PStr ''Helen Arbeny'', number = PInt 7566, benefits = False,
              shift = PShift NIGHT, rate = PInt 11, hour = PInt 22\<rparr>"

definition worker4 :: ProductionWorker where
  "worker4 = \<lparr>name = PStr ''Vickie Mclaughlin'', number = PInt 5854, benefits = False,
              shift = PShift DAY, rate = PInt 20, hour = PInt 25\<rparr>"

definition supervisor1 :: ShiftSupervisor where
  "supervisor1 = \<lparr>name = PStr ''Zach Mccall'', number = PInt 2566, benefits = True,
                  salary = PInt 68590, sup_shift = PShift NIGHT,
                  emp_array = [None, None, None], num_worker = 0\<rparr>"

section \<open>The validators\<close>

lemmas consts_defs = DEFAULT_NAME_def DEFAULT_NUM_def BENEFIT_ID_def MIN_EMPLY_NUM_def
  MAX_EMPLY_NUM_def DEFAULT_SHIFT_def DEFAULT_HOURLY_RAY_RATE_def DEFAULT_HOURS_WORKED_def
  MIN_HOURLY_PAY_RATE_def MAX_HOURLY_PAY_RATE_def MIN_HOURS_WORKED_def MAX_HOURS_WORKED_def
  DEFAULT_SALARY_def MIN_SALARY_def MAX_SALARY_def DEFAULT_SHIFT_sup_def DEFAULT_CAPACITY_def
  DEFAULT_NUM_OF_WORKERS_def BONUS_ADD_TO_SALARY_def WORKERS_REQUIRED_def

lemma py_between_int: "py_between lo (PInt n) hi = Inr (lo \<le> n \<and> n \<le> hi)"
  by (simp add: py_between_def py_ge_def py_le_def)

text \<open>The type test in front of a chained comparison keeps the comparison from raising.\<close>

lemma range_test:
  "(if type_is_int v then py_between lo v hi else Inr False) = Inr (int_in lo hi v)"
  by (cases v) (simp_all add: py_between_int int_in_def)

lemma validate_id_eq: "validate_id v = Inr (int_in 1000 99999 v)"
  by (simp add: validate_id_def range_test consts_defs)

lemma validate_rate_eq: "validate_rate v = Inr (int_in 0 20 v)"
  by (simp add: validate_rate_def range_test consts_defs)

lemma validate_hour_eq: "validate_hour v = Inr (int_in 0 40 v)"
  by (simp add: validate_hour_def range_test consts_defs)

lemma valid_salary_eq: "valid_salary v = Inr (int_in 50000 200000 v)"
  by (simp add: valid_salary_def range_test consts_defs)

section \<open>\<^verbatim>\<open>Employee\<close>: name and number\<close>

lemma set_employee_num_int:
  "set_employee_num (PInt i) e =
     (None, e\<lparr>number := PInt (if 1000 \<le> i \<and> i \<le> 99999 then i else 1234),
              benefits := (i < 5000)\<rparr>)"
  by (simp add: set_employee_num_def validate_id_eq int_in_def determine_benefits_def
        py_lt_def consts_defs)

lemma set_employee_name_eq:
  "set_employee_name v e =
     (None, e\<lparr>name := (case v of PStr s \<Rightarrow> if isnumeric s then PStr DEFAULT_NAME else v
                         | _ \<Rightarrow> PStr DEFAULT_NAME)\<rparr>)"
  by (cases v) (simp_all add: set_employee_name_def validate_name_def)

text \<open>
  C1. The claim: for every integer id given to the setter of \<^verbatim>\<open>employee_num\<close>, the benefits
  flag equals (stored id < 5000), the stored id being the id when it lies in 1000..99999 and
  1234 otherwise. The setter calls \<^verbatim>\<open>determine_benefits(number)\<close> on its argument, not on
  the number it has just stored: an employee made with id 100000 stores 1234, which is below
  5000, and has no benefits.
\<close>

theorem employee_num_benefits_from_argument:
  "Employee_make (PStr ''Ann'') (PInt 100000)
     = Inr \<lparr>name = PStr ''Ann'', number = PInt 1234, benefits = False\<rparr>"
  by (simp add: Employee_make_def construct_def Employee_init_def seq_def set_employee_name_eq
        isnumeric_def numeric_char_def Employee_new_def set_employee_num_int)

text \<open>
  C3. The claim: the setter of \<^verbatim>\<open>employee_name\<close> stores a value only if it is a non-empty
  string that is not purely numeric, and stores the default name otherwise; the empty string
  gives the default. \<^verbatim>\<open>validate_name\<close> has no test of emptiness, and \<^verbatim>\<open>''.isnumeric()\<close> is
  false, so the empty string is stored.
\<close>

theorem empty_name_counterexample:
  "name (snd (set_employee_name (PStr []) Employee_new)) \<noteq> PStr DEFAULT_NAME"
  by (simp add: set_employee_name_eq isnumeric_def DEFAULT_NAME_def)

text \<open>
  C3 as the code has it: a string is stored exactly when \<^verbatim>\<open>isnumeric\<close> is false of it, that
  is when it is empty or has a character that is not numeric; a purely numeric string and a
  value that is not a string give the default name. The setter never raises.
\<close>

theorem set_employee_name_stores:
  "(\<not> isnumeric s \<longrightarrow> set_employee_name (PStr s) e = (None, e\<lparr>name := PStr s\<rparr>))
   \<and> (isnumeric s \<longrightarrow> set_employee_name (PStr s) e = (None, e\<lparr>name := PStr DEFAULT_NAME\<rparr>))
   \<and> (\<not> type_is_str v \<longrightarrow> set_employee_name v e = (None, e\<lparr>name := PStr DEFAULT_NAME\<rparr>))
   \<and> set_employee_name (PStr []) e = (None, e\<lparr>name := PStr []\<rparr>)
   \<and> isnumeric s = (s \<noteq> [] \<and> (\<forall>c \<in> set s. numeric_char c))"
  by (cases v) (simp_all add: set_employee_name_eq isnumeric_def list_all_iff)

theorem set_employee_name_stores_witness:
  "\<not> isnumeric ''Zach Mccall''
   \<and> set_employee_name (PStr ''Zach Mccall'') Employee_new
       = (None, Employee_new\<lparr>name := PStr ''Zach Mccall''\<rparr>)
   \<and> isnumeric ''2019''
   \<and> set_employee_name (PStr ''2019'') Employee_new
       = (None, Employee_new\<lparr>name := PStr DEFAULT_NAME\<rparr>)
   \<and> \<not> type_is_str (PInt 2019)
   \<and> set_employee_name (PInt 2019) Employee_new
       = (None, Employee_new\<lparr>name := PStr DEFAULT_NAME\<rparr>)"
  using set_employee_name_stores [of "''Zach Mccall''" Employee_new "PInt 2019"]
        set_employee_name_stores [of "''2019''" Employee_new "PInt 2019"]
  by (simp add: isnumeric_def numeric_char_def)

section \<open>\<^verbatim>\<open>ProductionWorker\<close>: gross pay\<close>

text \<open>
  C7. For every rate and hours given to \<^verbatim>\<open>gross_pay\<close>: when the rate is an integer in
  \<open>[0, 20]\<close> and the hours are an integer in \<open>[0, 40]\<close> the result is their product, and
  when either fails its validation the result is 0.
\<close>

theorem gross_pay_result:
  "(0 \<le> r \<and> r \<le> 20 \<and> 0 \<le> h \<and> h \<le> 40 \<longrightarrow> gross_pay (PInt r) (PInt h) = Inr (PInt (r * h)))
   \<and> (\<not> int_in 0 20 v \<or> \<not> int_in 0 40 u \<longrightarrow> gross_pay v u = Inr (PInt 0))"
proof -
  have g: "gross_pay x y = (if int_in 0 20 x \<and> int_in 0 40 y then py_mul x y else Inr (PInt 0))"
    for x y
    by (simp add: gross_pay_def validate_rate_eq validate_hour_eq split: bool.splits)
  show ?thesis
    by (auto simp add: g) (simp_all add: int_in_def py_mul_def)
qed

theorem gross_pay_result_witness:
  "gross_pay (PInt 20) (PInt 10) = Inr (PInt 200)
   \<and> \<not> int_in 0 20 (PInt 30) \<and> gross_pay (PInt 30) (PInt 10) = Inr (PInt 0)
   \<and> \<not> int_in 0 40 (PBool True) \<and> gross_pay (PInt 20) (PBool True) = Inr (PInt 0)"
  using gross_pay_result [of 20 10 "PInt 30" "PInt 10"]
        gross_pay_result [of 20 10 "PInt 20" "PBool True"]
  by (simp add: int_in_def)

section \<open>The setters as equations\<close>

lemma set_hourly_pay_rate_eq:
  "set_hourly_pay_rate v w = (None, w\<lparr>rate := (if int_in 0 20 v then v else PInt 1)\<rparr>)"
  by (simp add: set_hourly_pay_rate_def validate_rate_eq consts_defs)

lemma set_hours_worked_eq:
  "set_hours_worked v w = (None, w\<lparr>hour := (if int_in 0 40 v then v else PInt 0)\<rparr>)"
  by (simp add: set_hours_worked_def validate_hour_eq consts_defs)

text \<open>The setter of \<^verbatim>\<open>employee_shift\<close> on each interpreter.\<close>

lemma set_employee_shift_Py37:
  "\<exists>m. \<forall>w. set_employee_shift Py37 v w = (None, w\<lparr>shift := PShift m\<rparr>)"
proof (cases v)
  case (PShift m)
  then show ?thesis
    by (intro exI [of _ m]) (simp add: set_employee_shift_def)
next
  case (PInt n)
  consider "n = 1" | "n = 2" | "n = 3" | "n < 1 \<or> 3 < n" by arith
  then show ?thesis
  proof cases
    case 1
    then show ?thesis using PInt
      by (intro exI [of _ DAY]) (simp add: set_employee_shift_def py_between_int Shift_call_def)
  next
    case 2
    then show ?thesis using PInt
      by (intro exI [of _ SWING]) (simp add: set_employee_shift_def py_between_int Shift_call_def)
  next
    case 3
    then show ?thesis using PInt
      by (intro exI [of _ NIGHT]) (simp add: set_employee_shift_def py_between_int Shift_call_def)
  next
    case 4
    then show ?thesis using PInt
      by (intro exI [of _ DAY])
         (auto simp add: set_employee_shift_def py_between_int DEFAULT_SHIFT_def)
  qed
qed (rule exI [of _ DAY], simp add: set_employee_shift_def DEFAULT_SHIFT_def)+

lemma set_employee_shift_Py38:
  "set_employee_shift Py38 v w
     = (if type_is_Shift v then (None, w\<lparr>shift := v\<rparr>) else (Some TypeError, w))"
  by (simp add: set_employee_shift_def)

lemma set_employee_shift_Py312:
  "set_employee_shift Py312 v w
     = (None, w\<lparr>shift := (if type_is_Shift v \<or> member_value v then v else PShift DAY)\<rparr>)"
proof (cases "type_is_Shift v \<or> member_value v")
  case True
  then show ?thesis by (simp add: set_employee_shift_def)
next
  case False
  then have "\<not> int_in 1 3 v"
    by (cases v) (simp_all add: member_value_def int_in_def)
  then show ?thesis using False
    by (simp add: set_employee_shift_def range_test DEFAULT_SHIFT_def)
qed

text \<open>On no interpreter does the setter touch the pay fields.\<close>

lemma set_employee_shift_pay:
  "rate (snd (set_employee_shift py v w)) = rate w
   \<and> hour (snd (set_employee_shift py v w)) = hour w"
proof (cases py)
  case Py37
  obtain m where "set_employee_shift Py37 v w = (None, w\<lparr>shift := PShift m\<rparr>)"
    using set_employee_shift_Py37 by blast
  then show ?thesis using Py37 by simp
next
  case Py38
  then show ?thesis by (simp add: set_employee_shift_Py38)
next
  case Py312
  then show ?thesis by (simp add: set_employee_shift_Py312)
qed

text \<open>Up to Python 3.11 a shift that is stored is a member.\<close>

lemma set_employee_shift_member:
  assumes "py \<noteq> Py312"
  shows "(fst (set_employee_shift py v w) = None
            \<longrightarrow> type_is_Shift (shift (snd (set_employee_shift py v w))))
         \<and> (type_is_Shift (shift w) \<longrightarrow> type_is_Shift (shift (snd (set_employee_shift py v w))))"
proof (cases py)
  case Py37
  obtain m where "set_employee_shift Py37 v w = (None, w\<lparr>shift := PShift m\<rparr>)"
    using set_employee_shift_Py37 by blast
  then show ?thesis using Py37 by simp
next
  case Py38
  then show ?thesis by (simp add: set_employee_shift_Py38)
next
  case Py312
  then show ?thesis using assms by simp
qed

lemma set_supervisor_shift_eq:
  "\<exists>m. \<forall>s. set_supervisor_shift v s = (None, s\<lparr>sup_shift := PShift m\<rparr>)"
proof (cases v)
  case (PShift m)
  then show ?thesis
    by (intro exI [of _ m]) (simp add: set_supervisor_shift_def)
next
  case (PInt n)
  consider "n = 1" | "n = 2" | "n = 3" | "n < 1 \<or> 3 < n" by arith
  then show ?thesis
  proof cases
    case 1
    then show ?thesis using PInt
      by (intro exI [of _ DAY]) (simp add: set_supervisor_shift_def py_between_int Shift_call_def)
  next
    case 2
    then show ?thesis using PInt
      by (intro exI [of _ SWING]) (simp add: set_supervisor_shift_def py_between_int Shift_call_def)
  next
    case 3
    then show ?thesis using PInt
      by (intro exI [of _ NIGHT]) (simp add: set_supervisor_shift_def py_between_int Shift_call_def)
  next
    case 4
    then show ?thesis using PInt
      by (intro exI [of _ DAY])
         (auto simp add: set_supervisor_shift_def py_between_int DEFAULT_SHIFT_sup_def)
  qed
qed (rule exI [of _ DAY], simp add: set_supervisor_shift_def DEFAULT_SHIFT_sup_def)+

lemma set_annual_salary_eq:
  "set_annual_salary v s = (None, s\<lparr>salary := (if int_in 50000 200000 v then v else PInt 50000)\<rparr>)"
  by (simp add: set_annual_salary_def valid_salary_eq consts_defs)

lemma set_number_of_workers_eq:
  "set_number_of_workers n s = (None, s\<lparr>num_worker := (if n \<le> 0 then 0 else n)\<rparr>)"
  by (simp add: set_number_of_workers_def DEFAULT_NUM_OF_WORKERS_def)

lemma valid_arr_capacity_eq:
  "valid_arr_capacity v = Inr (case v of PInt n \<Rightarrow> if 0 < n then v else PInt 10 | _ \<Rightarrow> PInt 10)"
  by (cases v) (simp_all add: valid_arr_capacity_def py_gt_def consts_defs)

lemma set_employee_num_cases:
  "set_employee_num v e = (None, e\<lparr>number := (if int_in 1000 99999 v then v else PInt 1234), benefits := the (num_of v) < 5000\<rparr>)
   \<or> set_employee_num v e = (Some TypeError, e\<lparr>number := PInt 1234\<rparr>)"
  by (cases v) (simp_all add: set_employee_num_def validate_id_eq int_in_def determine_benefits_def py_lt_def consts_defs)

section \<open>The stored fields of a worker\<close>

lemma worker_step_pay_ok: "worker_pay_ok w \<Longrightarrow> worker_pay_ok (snd (worker_step py c w))"
proof (cases c)
  case (Set_employee_shift v)
  then show "worker_pay_ok w \<Longrightarrow> ?thesis"
    by (simp add: worker_pay_ok_def set_employee_shift_pay)
next
  case (Set_hourly_pay_rate v)
  then show "worker_pay_ok w \<Longrightarrow> ?thesis"
    by (simp add: worker_pay_ok_def set_hourly_pay_rate_eq int_in_def)
next
  case (Set_hours_worked v)
  then show "worker_pay_ok w \<Longrightarrow> ?thesis"
    by (simp add: worker_pay_ok_def set_hours_worked_eq int_in_def)
next
  case (Set_employee_name v)
  then show "worker_pay_ok w \<Longrightarrow> ?thesis"
    by (simp add: worker_pay_ok_def set_employee_name_eq)
next
  case (Set_employee_num v)
  then show "worker_pay_ok w \<Longrightarrow> ?thesis"
    using set_employee_num_cases [of v w] by (auto simp add: worker_pay_ok_def)
qed

lemma worker_run_pay_ok: "worker_pay_ok w \<Longrightarrow> worker_pay_ok (worker_run py cs w)"
  by (induction cs arbitrary: w) (simp_all add: worker_step_pay_ok)

lemma worker_step_shift:
  assumes "py \<noteq> Py312" "type_is_Shift (shift w)"
  shows "type_is_Shift (shift (snd (worker_step py c w)))"
proof (cases c)
  case (Set_employee_shift v)
  then show ?thesis using assms set_employee_shift_member [of py v w] by simp
next
  case (Set_hourly_pay_rate v)
  then show ?thesis using assms by (simp add: set_hourly_pay_rate_eq)
next
  case (Set_hours_worked v)
  then show ?thesis using assms by (simp add: set_hours_worked_eq)
next
  case (Set_employee_name v)
  then show ?thesis using assms by (simp add: set_employee_name_eq)
next
  case (Set_employee_num v)
  then show ?thesis using assms set_employee_num_cases [of v w] by auto
qed

lemma worker_run_shift:
  "py \<noteq> Py312 \<Longrightarrow> type_is_Shift (shift w) \<Longrightarrow> type_is_Shift (shift (worker_run py cs w))"
  by (induction cs arbitrary: w) (simp_all add: worker_step_shift)

lemma construct_Inr: "construct r = Inr s \<Longrightarrow> r = (None, s)"
  by (cases r) (auto simp add: construct_def split: option.splits)

lemma seq_None: "seq r f = (None, s) \<Longrightarrow> \<exists>s1. r = (None, s1) \<and> f s1 = (None, s)"
  by (cases r) (auto simp add: seq_def split: option.splits)

lemma Employee_init_worker:
  fixes w :: ProductionWorker
  shows "Employee_init nm num w = (x, w') \<Longrightarrow> shift w' = shift w \<and> rate w' = rate w \<and> hour w' = hour w"
  using set_employee_num_cases [of num "snd (set_employee_name nm w)"]
  by (auto simp add: Employee_init_def seq_def set_employee_name_eq)

text \<open>What a constructor call that returns has stored.\<close>

lemma ProductionWorker_make_fields:
  assumes "ProductionWorker_make py nm num sh r h = Inr w"
  shows "fst (set_employee_shift py sh ProductionWorker_new) = None
         \<and> shift w = shift (snd (set_employee_shift py sh ProductionWorker_new))
         \<and> rate w = (if int_in 0 20 r then r else PInt 1)
         \<and> hour w = (if int_in 0 40 h then h else PInt 0)"
proof -
  have i: "seq (seq (seq (set_employee_shift py sh ProductionWorker_new) (set_hourly_pay_rate r))
                    (set_hours_worked h))
               (Employee_init nm num) = (None, w)"
    using assms construct_Inr [of "ProductionWorker_init py nm num sh r h ProductionWorker_new" w]
    by (simp add: ProductionWorker_make_def ProductionWorker_init_def)
  from seq_None [OF i] obtain w3 where w3:
      "seq (seq (set_employee_shift py sh ProductionWorker_new) (set_hourly_pay_rate r))
           (set_hours_worked h) = (None, w3)"
      and e: "Employee_init nm num w3 = (None, w)"
    by auto
  from seq_None [OF w3] obtain w2 where w2:
      "seq (set_employee_shift py sh ProductionWorker_new) (set_hourly_pay_rate r) = (None, w2)"
      and h: "set_hours_worked h w2 = (None, w3)"
    by auto
  from seq_None [OF w2] obtain w1 where w1: "set_employee_shift py sh ProductionWorker_new = (None, w1)"
      and r: "set_hourly_pay_rate r w1 = (None, w2)"
    by auto
  have "shift w3 = shift w1 \<and> rate w3 = (if int_in 0 20 r then r else PInt 1)
        \<and> hour w3 = (if int_in 0 40 h then h else PInt 0)"
    using h r by (auto simp add: set_hourly_pay_rate_eq set_hours_worked_eq)
  then show ?thesis using Employee_init_worker [OF e] w1 by simp
qed

text \<open>
  On every interpreter: after the construction of a \<^verbatim>\<open>ProductionWorker\<close> and after any
  sequence of setter calls (a setter that raises included, the caller going on), the stored
  rate is an integer in \<open>[0, 20]\<close> and the stored hours are an integer in \<open>[0, 40]\<close>, so both
  validations in \<^verbatim>\<open>gross_pay\<close> succeed on the stored fields and it returns their product.
  Up to Python 3.11 the stored shift is a member of \<^verbatim>\<open>Shift\<close> as well.
\<close>

lemma worker_pay_fields_stay_valid:
  assumes "ProductionWorker_make py nm num sh r h = Inr w0"
  shows "int_in 0 20 (rate (worker_run py cs w0)) \<and> int_in 0 40 (hour (worker_run py cs w0))
         \<and> validate_rate (rate (worker_run py cs w0)) = Inr True
         \<and> validate_hour (hour (worker_run py cs w0)) = Inr True
         \<and> (\<exists>a b. rate (worker_run py cs w0) = PInt a \<and> hour (worker_run py cs w0) = PInt b
                \<and> gross_pay (rate (worker_run py cs w0)) (hour (worker_run py cs w0))
                    = Inr (PInt (a * b)))
         \<and> (py \<noteq> Py312 \<longrightarrow> type_is_Shift (shift (worker_run py cs w0)))"
proof -
  note f = ProductionWorker_make_fields [OF assms]
  have "worker_pay_ok w0" using f by (simp add: worker_pay_ok_def int_in_def)
  then have ok: "worker_pay_ok (worker_run py cs w0)" by (rule worker_run_pay_ok)
  then obtain a b where ab: "rate (worker_run py cs w0) = PInt a" "hour (worker_run py cs w0) = PInt b"
     "0 \<le> a" "a \<le> 20" "0 \<le> b" "b \<le> 40"
    by (auto simp add: worker_pay_ok_def int_in_def split: pyval.splits)
  have g: "gross_pay (PInt a) (PInt b) = Inr (PInt (a * b))"
    using ab by (simp add: gross_pay_def validate_rate_eq validate_hour_eq int_in_def py_mul_def)
  have sh: "type_is_Shift (shift (worker_run py cs w0))" if py: "py \<noteq> Py312"
  proof -
    have "type_is_Shift (shift w0)"
      using f set_employee_shift_member [OF py, of sh ProductionWorker_new] by simp
    then show ?thesis using py by (simp add: worker_run_shift)
  qed
  show ?thesis using ok ab g sh
    by (simp add: worker_pay_ok_def validate_rate_eq validate_hour_eq)
qed

lemma worker1_made:
  "ProductionWorker_make py (PStr ''Marco Joseph'') (PInt 1340) (PShift NIGHT) (PInt 20) (PInt 10)
     = Inr worker1"
proof -
  have "set_employee_shift py (PShift NIGHT) w = (None, w\<lparr>shift := PShift NIGHT\<rparr>)" for w
    by (cases py) (simp_all add: set_employee_shift_def)
  then show ?thesis
    by (simp add: ProductionWorker_make_def ProductionWorker_init_def construct_def seq_def
          set_hourly_pay_rate_eq set_hours_worked_eq int_in_def Employee_init_def
          set_employee_name_eq isnumeric_def numeric_char_def set_employee_num_int
          ProductionWorker_new_def worker1_def)
qed

text \<open>On the interpreter of 2019 the setter of \<^verbatim>\<open>employee_shift\<close> stores a member as it is,
  the integers 1, 2, 3 as \<open>DAY\<close>, \<open>SWING\<close>, \<open>NIGHT\<close>, and the default \<open>DAY\<close> for any other
  value.\<close>

lemma set_employee_shift_Py37_stores:
  "set_employee_shift Py37 (PShift m) w = (None, w\<lparr>shift := PShift m\<rparr>)
   \<and> set_employee_shift Py37 (PInt 1) w = (None, w\<lparr>shift := PShift DAY\<rparr>)
   \<and> set_employee_shift Py37 (PInt 2) w = (None, w\<lparr>shift := PShift SWING\<rparr>)
   \<and> set_employee_shift Py37 (PInt 3) w = (None, w\<lparr>shift := PShift NIGHT\<rparr>)
   \<and> (\<not> type_is_Shift v \<and> \<not> int_in 1 3 v
        \<longrightarrow> set_employee_shift Py37 v w = (None, w\<lparr>shift := PShift DAY\<rparr>))"
  by (simp add: set_employee_shift_def range_test py_between_int Shift_call_def
        DEFAULT_SHIFT_def)

text \<open>
  C8. The claim: for every value given to the setter of \<^verbatim>\<open>employee_shift\<close>, a member of
  \<^verbatim>\<open>Shift\<close> is stored as it is, the integers 1, 2, 3 are stored as \<open>DAY\<close>, \<open>SWING\<close>,
  \<open>NIGHT\<close>, and any other value, the integer 7 for one, stores the default \<open>DAY\<close>. The
  setter tests \<^verbatim>\<open>shift in Shift\<close> first, where the setter of \<^verbatim>\<open>supervisor_shift\<close> tests
  \<^verbatim>\<open>type(shift) is Shift\<close>: on Python 3.8 to 3.11 the test raises \<^verbatim>\<open>TypeError\<close> for 7 and
  for 2 and nothing is stored, and from Python 3.12 on it is true of 2, which is stored as
  the integer it is.
\<close>

theorem employee_shift_setter_membership_test:
  "set_employee_shift Py38 (PInt 7) worker1 = (Some TypeError, worker1)
   \<and> set_employee_shift Py38 (PInt 2) worker1 = (Some TypeError, worker1)
   \<and> set_employee_shift Py312 (PInt 2) worker1 = (None, worker1\<lparr>shift := PInt 2\<rparr>)
   \<and> set_supervisor_shift (PInt 7) supervisor1 = (None, supervisor1\<lparr>sup_shift := PShift DAY\<rparr>)
   \<and> set_supervisor_shift (PInt 2) supervisor1 = (None, supervisor1\<lparr>sup_shift := PShift SWING\<rparr>)"
  by (simp add: set_employee_shift_Py38 set_employee_shift_Py312 member_value_def
        set_supervisor_shift_def py_between_int Shift_call_def DEFAULT_SHIFT_sup_def)

text \<open>
  C10. The claim: after the construction of a \<^verbatim>\<open>ProductionWorker\<close> and after any sequence of
  setter calls the stored rate is an integer in \<open>[0, 20]\<close>, the stored hours are an integer in
  \<open>[0, 40]\<close> and the stored shift is a member of \<^verbatim>\<open>Shift\<close>, so that \<^verbatim>\<open>gross_pay\<close> on the
  stored fields returns their product. From Python 3.12 on, the first worker of \<^verbatim>\<open>main()\<close>
  made with the shift 3 in place of \<^verbatim>\<open>Shift.NIGHT\<close> stores the integer 3, and the setter
  called with \<^verbatim>\<open>True\<close> stores \<^verbatim>\<open>True\<close>: the stored shift is no member. The pay fields are
  as claimed.
\<close>

theorem stored_shift_not_a_member:
  "ProductionWorker_make Py312 (PStr ''Marco Joseph'') (PInt 1340) (PInt 3) (PInt 20) (PInt 10)
     = Inr (worker1\<lparr>shift := PInt 3\<rparr>)
   \<and> worker_run Py312 [Set_employee_shift (PBool True)] worker1 = worker1\<lparr>shift := PBool True\<rparr>
   \<and> type_is_Shift (shift (worker1\<lparr>shift := PInt 3\<rparr>)) = False
   \<and> type_is_Shift (shift (worker1\<lparr>shift := PBool True\<rparr>)) = False
   \<and> gross_pay (rate (worker1\<lparr>shift := PInt 3\<rparr>)) (hour (worker1\<lparr>shift := PInt 3\<rparr>))
       = Inr (PInt 200)"
  by (simp add: ProductionWorker_make_def ProductionWorker_init_def construct_def seq_def
        set_employee_shift_Py312 member_value_def set_hourly_pay_rate_eq set_hours_worked_eq
        int_in_def Employee_init_def set_employee_name_eq isnumeric_def numeric_char_def
        set_employee_num_int ProductionWorker_new_def worker1_def gross_pay_def
        validate_rate_eq validate_hour_eq py_mul_def)

section \<open>\<^verbatim>\<open>ShiftSupervisor\<close>: bonus and roster\<close>

lemma bonus_eq:
  "salary s = PInt x \<Longrightarrow>
   bonus s = (if 4 < num_worker s
              then (Inr True, s\<lparr>salary := PInt (if 40000 \<le> x \<and> x \<le> 190000 then x + 10000 else 50000)\<rparr>)
              else (Inr False, s))"
  by (simp add: bonus_def py_add_def set_annual_salary_eq int_in_def consts_defs)

lemma bonus_other_fields:
  "emp_array (snd (bonus s)) = emp_array s \<and> num_worker (snd (bonus s)) = num_worker s
   \<and> sup_shift (snd (bonus s)) = sup_shift s"
  by (simp add: bonus_def py_add_def set_annual_salary_eq split: option.splits)

text \<open>
  C6. For every supervisor and every worker whose shift is not the supervisor's,
  \<^verbatim>\<open>add_to_array\<close> returns without raising and leaves the supervisor, its roster and its
  count as they were.
\<close>

theorem add_to_array_other_shift:
  "shift w \<noteq> sup_shift s \<longrightarrow> add_to_array w s = (None, s)"
  by (simp add: add_to_array_def shift_valid_def)

theorem add_to_array_other_shift_witness:
  "shift worker4 \<noteq> sup_shift supervisor1 \<and> add_to_array worker4 supervisor1 = (None, supervisor1)"
  using add_to_array_other_shift [of worker4 supervisor1]
  by (simp add: worker4_def supervisor1_def)

lemma add_to_array_eq:
  "add_to_array w s =
     (if shift w \<noteq> sup_shift s then (None, s)
      else if int (length (emp_array s)) \<le> num_worker s then (Some IsFull, s)
      else (None, s\<lparr>emp_array := drop 1 (emp_array s @ [Some w]),
                    num_worker := (if num_worker s + 1 \<le> 0 then 0 else num_worker s + 1)\<rparr>))"
  by (simp add: add_to_array_def shift_valid_def numpy_append_def numpy_delete0_def
        set_number_of_workers_def DEFAULT_NUM_OF_WORKERS_def Let_def)

lemma held_packed: "packed c n0 ws s \<Longrightarrow> held s = ws"
  by (simp add: packed_def held_def filter_map comp_def)

lemma length_packed: "packed c n0 ws s \<Longrightarrow> length (emp_array s) = c"
  by (simp add: packed_def)

lemma add_to_array_packed:
  assumes "packed c n0 ws s"
  shows "\<exists>ws'. packed c n0 ws' (snd (add_to_array w s))"
proof (cases "shift w \<noteq> sup_shift s \<or> int (length (emp_array s)) \<le> num_worker s")
  case True
  then have "snd (add_to_array w s) = s" by (auto simp add: add_to_array_eq)
  then show ?thesis using assms by auto
next
  case False
  have len: "length (emp_array s) = c" using assms by (rule length_packed)
  have lt: "length ws < c" using False assms len by (simp add: packed_def)
  then have rep: "replicate (c - length ws) (None :: ProductionWorker option)
                  = None # replicate (c - Suc (length ws)) None"
    by (cases "c - length ws") (simp_all add: Suc_diff_Suc)
  have "packed c n0 (ws @ [w]) (snd (add_to_array w s))"
    using False assms lt by (simp add: add_to_array_eq packed_def rep)
  then show ?thesis by blast
qed

lemma sup_step_packed:
  assumes "packed c n0 ws s" "keeps_count x"
  shows "\<exists>ws'. packed c n0 ws' (sup_step x s)"
proof (cases x)
  case (Add_to_array w)
  then show ?thesis using assms add_to_array_packed by simp
next
  case Bonus
  then show ?thesis using assms bonus_other_fields [of s] by (auto simp add: packed_def)
next
  case (Set_annual_salary v)
  then show ?thesis using assms by (auto simp add: packed_def set_annual_salary_eq)
next
  case (Set_supervisor_shift v)
  obtain m where "set_supervisor_shift v s = (None, s\<lparr>sup_shift := PShift m\<rparr>)"
    using set_supervisor_shift_eq by blast
  then show ?thesis using assms Set_supervisor_shift by (auto simp add: packed_def)
next
  case (Set_number_of_workers n)
  then show ?thesis using assms by simp
next
  case (Set_sup_name v)
  then show ?thesis using assms by (auto simp add: packed_def set_employee_name_eq)
next
  case (Set_sup_num v)
  then show ?thesis using assms set_employee_num_cases [of v s] by (auto simp add: packed_def)
qed

lemma sup_run_packed:
  "packed c n0 ws s \<Longrightarrow> list_all keeps_count xs \<Longrightarrow> \<exists>ws'. packed c n0 ws' (sup_run xs s)"
proof (induction xs arbitrary: ws s)
  case Nil
  then show ?case by auto
next
  case (Cons x xs)
  then obtain ws1 where "packed c n0 ws1 (sup_step x s)" using sup_step_packed by fastforce
  then show ?case using Cons by simp
qed

lemma sup_step_length: "length (emp_array (sup_step x s)) = length (emp_array s)"
proof (cases x)
  case (Add_to_array w)
  have "length (drop 1 (emp_array s @ [Some w])) = length (emp_array s)"
    by (cases "emp_array s") simp_all
  then show ?thesis using Add_to_array by (simp add: add_to_array_eq)
next
  case Bonus
  then show ?thesis by (simp add: bonus_other_fields)
next
  case (Set_annual_salary v)
  then show ?thesis by (simp add: set_annual_salary_eq)
next
  case (Set_supervisor_shift v)
  obtain m where "set_supervisor_shift v s = (None, s\<lparr>sup_shift := PShift m\<rparr>)"
    using set_supervisor_shift_eq by blast
  then show ?thesis using Set_supervisor_shift by simp
next
  case (Set_number_of_workers n)
  then show ?thesis by (simp add: set_number_of_workers_def)
next
  case (Set_sup_name v)
  then show ?thesis by (simp add: set_employee_name_eq)
next
  case (Set_sup_num v)
  then show ?thesis using set_employee_num_cases [of v s] by auto
qed

lemma sup_run_length: "length (emp_array (sup_run xs s)) = length (emp_array s)"
  by (induction xs arbitrary: s) (simp_all add: sup_step_length)

lemma held_le: "length (held s) \<le> length (emp_array s)"
  by (simp add: held_def)

lemma Employee_init_sup:
  fixes s :: ShiftSupervisor
  shows "Employee_init nm num s = (x, s') \<Longrightarrow>
         salary s' = salary s \<and> sup_shift s' = sup_shift s \<and> emp_array s' = emp_array s
         \<and> num_worker s' = num_worker s"
  using set_employee_num_cases [of num "snd (set_employee_name nm s)"]
  by (auto simp add: Employee_init_def seq_def set_employee_name_eq)

lemma valid_arr_capacity_pos: "valid_arr_capacity cap = Inr (PInt c) \<Longrightarrow> 0 < c"
  by (cases cap) (auto simp add: valid_arr_capacity_eq split: if_splits)

lemma valid_arr_capacity_total: "\<exists>c. valid_arr_capacity cap = Inr (PInt c)"
  by (cases cap) (auto simp add: valid_arr_capacity_eq)

lemma ShiftSupervisor_make_fields:
  assumes "ShiftSupervisor_make nm num sal sh cap n = Inr s0"
      and "valid_arr_capacity cap = Inr (PInt c)"
  shows "emp_array s0 = replicate (nat c) None \<and> num_worker s0 = (if n \<le> 0 then 0 else n)
         \<and> int_in 50000 200000 (salary s0) \<and> type_is_Shift (sup_shift s0)"
proof -
  obtain m where m: "\<And>s. set_supervisor_shift sh s = (None, s\<lparr>sup_shift := PShift m\<rparr>)"
    using set_supervisor_shift_eq [of sh] by blast
  have c: "0 < c" using assms(2) by (rule valid_arr_capacity_pos)
  let ?s4 = "ShiftSupervisor_new\<lparr>salary := (if int_in 50000 200000 sal then sal else PInt 50000),
       sup_shift := PShift m, emp_array := replicate (nat c) None,
       num_worker := (if n \<le> 0 then 0 else n)\<rparr>"
  have "Employee_init nm num ?s4 = (None, s0)"
    using assms c construct_Inr [of "ShiftSupervisor_init nm num sal sh cap n ShiftSupervisor_new" s0]
    by (simp add: ShiftSupervisor_make_def ShiftSupervisor_init_def seq_def set_annual_salary_eq m
          set_emp_array_new_def numpy_empty_def set_number_of_workers_eq)
  then have "salary s0 = salary ?s4 \<and> sup_shift s0 = sup_shift ?s4 \<and> emp_array s0 = emp_array ?s4
         \<and> num_worker s0 = num_worker ?s4"
    by (rule Employee_init_sup)
  then show ?thesis by (simp add: int_in_def)
qed

lemma ShiftSupervisor_make_packed:
  assumes "ShiftSupervisor_make nm num sal sh cap n = Inr s0"
      and "valid_arr_capacity cap = Inr (PInt c)"
  shows "packed (nat c) (if n \<le> 0 then 0 else n) [] s0"
  using ShiftSupervisor_make_fields [OF assms] by (simp add: packed_def)

lemma sup_run_count:
  assumes mk: "ShiftSupervisor_make nm num sal sh cap n = Inr s0"
      and kc: "list_all keeps_count xs"
  shows "num_worker (sup_run xs s0)
           = (if n \<le> 0 then 0 else n) + int (length (held (sup_run xs s0)))"
proof -
  obtain c where c: "valid_arr_capacity cap = Inr (PInt c)"
    using valid_arr_capacity_total by blast
  obtain ws where ws: "packed (nat c) (if n \<le> 0 then 0 else n) ws (sup_run xs s0)"
    using sup_run_packed [OF ShiftSupervisor_make_packed [OF mk c] kc] by blast
  then have "held (sup_run xs s0) = ws" by (rule held_packed)
  then show ?thesis using ws by (simp add: packed_def)
qed

text \<open>
  C4. The claim: after construction, also one that gives an explicit count, and after any
  sequence of operations the count equals the number of workers the roster holds, and the
  roster never holds more than its capacity. The setter of \<^verbatim>\<open>number_of_workers\<close> stores any
  positive count it is given: the first supervisor of \<^verbatim>\<open>main()\<close> made with the count 2 has
  the count 2 and an empty roster.
\<close>

theorem roster_count_counterexample:
  "ShiftSupervisor_make (PStr ''Zach Mccall'') (PInt 2566) (PInt 68590) (PShift NIGHT) (PInt 3) 2
     = Inr (supervisor1\<lparr>num_worker := 2\<rparr>)
   \<and> num_worker (supervisor1\<lparr>num_worker := 2\<rparr>) = 2
   \<and> held (supervisor1\<lparr>num_worker := 2\<rparr>) = []"
  by (simp add: ShiftSupervisor_make_def ShiftSupervisor_init_def construct_def seq_def
        set_annual_salary_eq int_in_def set_supervisor_shift_def set_emp_array_new_def
        valid_arr_capacity_eq numpy_empty_def set_number_of_workers_def Employee_init_def
        set_employee_name_eq isnumeric_def numeric_char_def set_employee_num_int
        ShiftSupervisor_new_def supervisor1_def held_def eval_nat_numeral)

text \<open>
  C4 as the code has it. For a supervisor made with the capacity argument \<open>cap\<close>, whose
  validated capacity is \<open>c\<close>, and any sequence of operations: the array keeps the size \<open>c\<close>
  and holds at most \<open>c\<close> workers; when no operation assigns \<^verbatim>\<open>number_of_workers\<close> directly,
  the count is the initial count (0 for a default or non-positive argument) plus the number
  of workers held, so with a default or non-positive initial count the count equals the
  number of workers held.
\<close>

theorem roster_count_invariant:
  assumes "ShiftSupervisor_make nm num sal sh cap n = Inr s0"
      and "valid_arr_capacity cap = Inr (PInt c)"
  shows "int (length (emp_array (sup_run xs s0))) = c
         \<and> int (length (held (sup_run xs s0))) \<le> c
         \<and> (list_all keeps_count xs \<longrightarrow>
              num_worker (sup_run xs s0)
                = (if n \<le> 0 then 0 else n) + int (length (held (sup_run xs s0))))
         \<and> (n \<le> 0 \<and> list_all keeps_count xs \<longrightarrow>
              num_worker (sup_run xs s0) = int (length (held (sup_run xs s0))))"
proof -
  have c: "0 < c" using assms(2) by (rule valid_arr_capacity_pos)
  have p0: "packed (nat c) (if n \<le> 0 then 0 else n) [] s0"
    using assms by (rule ShiftSupervisor_make_packed)
  have len: "int (length (emp_array (sup_run xs s0))) = c"
    using p0 c by (simp add: sup_run_length packed_def)
  have le: "int (length (held (sup_run xs s0))) \<le> c"
    using len held_le [of "sup_run xs s0"] by simp
  have cnt: "num_worker (sup_run xs s0)
               = (if n \<le> 0 then 0 else n) + int (length (held (sup_run xs s0)))"
    if kc: "list_all keeps_count xs"
    using assms(1) kc by (rule sup_run_count)
  show ?thesis using len le cnt by simp
qed

lemma supervisor1_made:
  "ShiftSupervisor_make (PStr ''Zach Mccall'') (PInt 2566) (PInt 68590) (PShift NIGHT) (PInt 3) 0
     = Inr supervisor1"
  by (simp add: ShiftSupervisor_make_def ShiftSupervisor_init_def construct_def seq_def
        set_annual_salary_eq int_in_def set_supervisor_shift_def set_emp_array_new_def
        valid_arr_capacity_eq numpy_empty_def set_number_of_workers_eq Employee_init_def
        set_employee_name_eq isnumeric_def numeric_char_def set_employee_num_int
        ShiftSupervisor_new_def supervisor1_def eval_nat_numeral)

lemma supervisor1_filled:
  "sup_run [Add_to_array worker1, Add_to_array worker4, Add_to_array worker2, Bonus,
            Add_to_array worker3] supervisor1
     = supervisor1\<lparr>emp_array := [Some worker1, Some worker2, Some worker3], num_worker := 3\<rparr>"
  by (simp add: add_to_array_eq bonus_eq [of _ 68590] supervisor1_def worker1_def worker2_def
        worker3_def worker4_def)

theorem roster_count_invariant_witness:
  "ShiftSupervisor_make (PStr ''Zach Mccall'') (PInt 2566) (PInt 68590) (PShift NIGHT) (PInt 3) 0
     = Inr supervisor1
   \<and> valid_arr_capacity (PInt 3) = Inr (PInt 3)
   \<and> list_all keeps_count [Add_to_array worker1, Add_to_array worker4, Add_to_array worker2,
                            Bonus, Add_to_array worker3]
   \<and> num_worker (sup_run [Add_to_array worker1, Add_to_array worker4, Add_to_array worker2,
                           Bonus, Add_to_array worker3] supervisor1) = 3
   \<and> held (sup_run [Add_to_array worker1, Add_to_array worker4, Add_to_array worker2,
                     Bonus, Add_to_array worker3] supervisor1) = [worker1, worker2, worker3]"
proof -
  have v: "valid_arr_capacity (PInt 3) = Inr (PInt 3)"
    by (simp add: valid_arr_capacity_eq)
  show ?thesis
    using roster_count_invariant [OF supervisor1_made v, of "[Add_to_array worker1,
            Add_to_array worker4, Add_to_array worker2, Bonus, Add_to_array worker3]"]
          supervisor1_made v
    by (simp only: supervisor1_filled) (simp add: held_def)
qed




lemma sup_step_salary:
  assumes "int_in 50000 200000 (salary s)"
  shows "int_in 50000 200000 (salary (sup_step x s))"
proof (cases x)
  case (Add_to_array w)
  then show ?thesis using assms by (simp add: add_to_array_eq)
next
  case Bonus
  obtain y where y: "salary s = PInt y" "50000 \<le> y" "y \<le> 200000"
    using assms by (auto simp add: int_in_def split: pyval.splits)
  show ?thesis using Bonus y by (simp add: bonus_eq [OF y(1)] int_in_def)
next
  case (Set_annual_salary v)
  then show ?thesis by (simp add: set_annual_salary_eq int_in_def)
next
  case (Set_supervisor_shift v)
  obtain m where "set_supervisor_shift v s = (None, s\<lparr>sup_shift := PShift m\<rparr>)"
    using set_supervisor_shift_eq by blast
  then show ?thesis using assms Set_supervisor_shift by simp
next
  case (Set_number_of_workers n)
  then show ?thesis using assms by (simp add: set_number_of_workers_eq)
next
  case (Set_sup_name v)
  then show ?thesis using assms by (simp add: set_employee_name_eq)
next
  case (Set_sup_num v)
  then show ?thesis using assms set_employee_num_cases [of v s] by auto
qed

lemma sup_run_salary:
  "int_in 50000 200000 (salary s) \<Longrightarrow> int_in 50000 200000 (salary (sup_run xs s))"
  by (induction xs arbitrary: s) (simp_all add: sup_step_salary)

text \<open>
  C2. The claim: \<^verbatim>\<open>bonus()\<close> returns true exactly when the count is above 4, every call that
  returns true adds exactly 10000 to the stored salary, and every call that returns false
  leaves it. \<^verbatim>\<open>bonus\<close> assigns through the setter of \<^verbatim>\<open>annual_salary\<close>, which accepts
  50000..200000 only: with a salary of 195000 and five workers the call returns true and the
  stored salary is the default 50000, not 205000.
\<close>

theorem bonus_true_resets_salary_counterexample:
  "bonus (supervisor1\<lparr>salary := PInt 195000, num_worker := 5\<rparr>)
     = (Inr True, supervisor1\<lparr>salary := PInt 50000, num_worker := 5\<rparr>)"
  by (simp add: bonus_eq supervisor1_def)

text \<open>
  C2 as the code has it: on a supervisor whose stored salary is an integer \<open>x\<close> in
  \<open>[50000, 200000]\<close>, \<^verbatim>\<open>bonus()\<close> returns true exactly when the count is above 4; a call
  that returns true with \<open>x \<le> 190000\<close> adds exactly 10000 to the salary; a call that returns
  false leaves the supervisor as it was. Every supervisor a constructor gave, after any
  sequence of operations, has such a salary.
\<close>

theorem bonus_result:
  "(salary s = PInt x \<and> 50000 \<le> x \<and> x \<le> 200000 \<longrightarrow>
      fst (bonus s) = Inr (4 < num_worker s)
      \<and> (4 < num_worker s \<and> x \<le> 190000 \<longrightarrow> salary (snd (bonus s)) = PInt (x + 10000))
      \<and> (\<not> 4 < num_worker s \<longrightarrow> snd (bonus s) = s))
   \<and> (ShiftSupervisor_make nm num sal sh cap n = Inr s0 \<longrightarrow>
        int_in 50000 200000 (salary (sup_run xs s0)))"
proof -
  have "int_in 50000 200000 (salary (sup_run xs s0))"
    if mk: "ShiftSupervisor_make nm num sal sh cap n = Inr s0"
  proof -
    obtain c where "valid_arr_capacity cap = Inr (PInt c)"
      using valid_arr_capacity_total by blast
    then have "int_in 50000 200000 (salary s0)"
      using ShiftSupervisor_make_fields [OF mk] by simp
    then show ?thesis by (rule sup_run_salary)
  qed
  then show ?thesis by (simp add: bonus_eq)
qed

theorem bonus_result_witness:
  "salary (supervisor1\<lparr>num_worker := 5\<rparr>) = PInt 68590
   \<and> fst (bonus (supervisor1\<lparr>num_worker := 5\<rparr>)) = Inr True
   \<and> salary (snd (bonus (supervisor1\<lparr>num_worker := 5\<rparr>))) = PInt 78590
   \<and> salary supervisor1 = PInt 68590
   \<and> fst (bonus supervisor1) = Inr False
   \<and> snd (bonus supervisor1) = supervisor1
   \<and> ShiftSupervisor_make (PStr ''Zach Mccall'') (PInt 2566) (PInt 68590) (PShift NIGHT)
        (PInt 3) 0 = Inr supervisor1
   \<and> int_in 50000 200000 (salary (sup_run [Bonus] supervisor1))"
  using bonus_result [of "supervisor1\<lparr>num_worker := 5\<rparr>" 68590 "PStr ''Zach Mccall''"
          "PInt 2566" "PInt 68590" "PShift NIGHT" "PInt 3" 0 supervisor1 "[Bonus]"]
        bonus_result [of supervisor1 68590 "PStr ''Zach Mccall''"
          "PInt 2566" "PInt 68590" "PShift NIGHT" "PInt 3" 0 supervisor1 "[Bonus]"]
        supervisor1_made
  by (simp add: supervisor1_def)

section \<open>The setters and exceptions\<close>

lemma employee_shift_setter_raises_not:
  assumes "py \<noteq> Py38"
  shows "fst (set_employee_shift py v w) = None"
proof (cases py)
  case Py37
  obtain m where "set_employee_shift Py37 v w = (None, w\<lparr>shift := PShift m\<rparr>)"
    using set_employee_shift_Py37 by blast
  then show ?thesis using Py37 by simp
next
  case Py38
  then show ?thesis using assms by simp
next
  case Py312
  then show ?thesis by (simp add: set_employee_shift_Py312)
qed

lemma other_setters_never_raise:
  "fst (set_employee_name v e) = None
   \<and> fst (set_hourly_pay_rate v w) = None
   \<and> fst (set_hours_worked v w) = None
   \<and> fst (set_annual_salary v s) = None
   \<and> fst (set_supervisor_shift v s) = None
   \<and> (\<exists>c. valid_arr_capacity v = Inr (PInt c) \<and> 0 < c)"
proof -
  obtain m' where "set_supervisor_shift v s = (None, s\<lparr>sup_shift := PShift m'\<rparr>)"
    using set_supervisor_shift_eq by blast
  moreover obtain c where "valid_arr_capacity v = Inr (PInt c)"
    using valid_arr_capacity_total by blast
  ultimately show ?thesis
    using valid_arr_capacity_pos [of v]
    by (simp add: set_employee_name_eq set_hourly_pay_rate_eq set_hours_worked_eq
          set_annual_salary_eq)
qed

text \<open>The setter of \<^verbatim>\<open>employee_num\<close> raises exactly for the values that do not compare with
  an \<^verbatim>\<open>int\<close>.\<close>

lemma set_employee_num_raises_iff:
  "(fst (set_employee_num v e) = Some TypeError) = (num_of v = None)"
  by (cases v)
     (simp_all add: set_employee_num_def validate_id_eq determine_benefits_def py_lt_def)

text \<open>
  C9. The claim: for every value of any type, the validating setters (name, id, hourly rate,
  hours worked, salary, shift, roster capacity) never raise. The setter of \<^verbatim>\<open>employee_num\<close>
  stores the default for a string and then compares the string with 5000 in
  \<^verbatim>\<open>determine_benefits\<close>, which raises \<^verbatim>\<open>TypeError\<close>; the benefits flag keeps its old value.
\<close>

theorem employee_num_setter_raises:
  "set_employee_num (PStr ''abc'') \<lparr>name = PStr ''Ann'', number = PInt 2566, benefits = True\<rparr>
     = (Some TypeError, \<lparr>name = PStr ''Ann'', number = PInt 1234, benefits = True\<rparr>)"
  by (simp add: set_employee_num_def validate_id_eq int_in_def determine_benefits_def py_lt_def
        consts_defs)

end
